theory Spec2Isabelle
  imports Complex_Main "HOL-Library.Char_ord" "HOL-Library.List_Lexorder"
begin

section \<open>Library management service: data model\<close>

text \<open>
  The development follows \<^verbatim>\<open>src/library_service.py\<close>. The service keeps no state of its
  own: every function reads and writes an SQLite database through the accessors of the
  module \<^verbatim>\<open>database\<close> and through a few queries of its own. The database is therefore an
  explicit value that every operation takes and returns, the ambient clock
  (\<^verbatim>\<open>datetime.now()\<close>) is an explicit argument holding the value the clock shows when the
  function reads it, and the success of each persistence write is an explicit flag.

  \<^item> An instant (a naive \<^verbatim>\<open>datetime\<close>) is the number of microseconds since
    0001-01-01T00:00:00, the resolution of \<^verbatim>\<open>datetime\<close>.
  \<^item> Python's \<^verbatim>\<open>str\<close> is a \<open>string\<close>; one \<open>char\<close> stands for one code point, so the
    model covers the code points 0 to 255.
  \<^item> Python's \<^verbatim>\<open>float\<close> amounts are rationals. Every amount the fee schedule produces is
    a multiple of one half below 16, which binary floating point represents and adds
    exactly, so the rational arithmetic is the arithmetic of the code on these values.
\<close>

type_synonym instant = int

definition usec_per_day :: int where
  "usec_per_day = 86400000000"

text \<open>\<^verbatim>\<open>timedelta(days=n)\<close> added to an instant.\<close>

definition plus_days :: "instant \<Rightarrow> int \<Rightarrow> instant" where
  "plus_days t n = t + n * usec_per_day"

text \<open>
  \<^verbatim>\<open>(a - b).days\<close>: a \<^verbatim>\<open>timedelta\<close> is normalised so that its seconds and microseconds are
  not negative, hence \<^verbatim>\<open>days\<close> is the floor of the difference in days.
\<close>

definition timedelta_days :: "instant \<Rightarrow> instant \<Rightarrow> int" where
  "timedelta_days a b = (a - b) div usec_per_day"

text \<open>Rows of the tables \<^verbatim>\<open>books\<close> and \<^verbatim>\<open>borrow_records\<close>; the fields are the columns, prefixed.\<close>

record book =
  bk_id :: int
  bk_title :: string
  bk_author :: string
  bk_isbn :: string
  bk_total_copies :: int
  bk_available_copies :: int

record borrow_record =
  br_patron_id :: string
  br_book_id :: int
  br_borrow_date :: instant
  br_due_date :: instant
  br_return_date :: "instant option"

record database =
  books :: "book list"
  borrow_records :: "borrow_record list"

text \<open>The dictionary \<^verbatim>\<open>calculate_late_fee_for_book\<close> returns: always the same three keys.\<close>

record fee_info =
  fee_amount :: rat
  days_overdue :: int
  status :: string

section \<open>Strings\<close>

text \<open>\<^verbatim>\<open>str.isdigit\<close> on the code points below 256: the ASCII digits and the superscripts
  two, three and one (U+00B2, U+00B3, U+00B9).\<close>

definition char_isdigit :: "char \<Rightarrow> bool" where
  "char_isdigit c = (let n = (of_char c :: nat) in (48 \<le> n \<and> n \<le> 57) \<or> n = 178 \<or> n = 179 \<or> n = 185)"

definition isdigit :: "string \<Rightarrow> bool" where
  "isdigit s = (s \<noteq> [] \<and> list_all char_isdigit s)"

text \<open>\<^verbatim>\<open>str.isspace\<close> on the code points below 256, the characters \<^verbatim>\<open>str.strip()\<close> removes.\<close>

definition char_isspace :: "char \<Rightarrow> bool" where
  "char_isspace c = (let n = (of_char c :: nat) in (9 \<le> n \<and> n \<le> 13) \<or> (28 \<le> n \<and> n \<le> 32) \<or> n = 133 \<or> n = 160)"

definition strip :: "string \<Rightarrow> string" where
  "strip s = rev (dropWhile char_isspace (rev (dropWhile char_isspace s)))"

text \<open>The check every operation makes on a patron id:
  \<^verbatim>\<open>not patron_id or not patron_id.isdigit() or len(patron_id) != 6\<close> rejects.\<close>

definition invalid_patron_id :: "string \<Rightarrow> bool" where
  "invalid_patron_id patron_id = (patron_id = [] \<or> \<not> isdigit patron_id \<or> length patron_id \<noteq> 6)"

section \<open>Persistence accessors\<close>

text \<open>
  Modelled from the spec: the module \<^verbatim>\<open>database\<close> is not among the sources; its accessors
  are the ones section 6 of the specification lists (fetch by id, fetch by ISBN, insert,
  adjust availability by a delta, close a borrow record, count the open records of a
  patron). A write takes a flag \<open>ok\<close>: when the flag is false the accessor reports failure
  and the database is as it was.
\<close>

text \<open>Modelled from the spec: \<^verbatim>\<open>get_book_by_id\<close> of the absent module \<^verbatim>\<open>database\<close>, the fetch by id
  of section 6: the row of that id, if any.\<close>

definition get_book_by_id :: "database \<Rightarrow> int \<Rightarrow> book option" where
  "get_book_by_id db book_id = find (\<lambda>b. bk_id b = book_id) (books db)"

text \<open>Modelled from the spec: \<^verbatim>\<open>get_book_by_isbn\<close> of the absent module \<^verbatim>\<open>database\<close>, the fetch by
  ISBN of section 6: a row of exactly that ISBN, if any.\<close>

definition get_book_by_isbn :: "database \<Rightarrow> string \<Rightarrow> book option" where
  "get_book_by_isbn db isbn = find (\<lambda>b. bk_isbn b = isbn) (books db)"

definition is_open :: "borrow_record \<Rightarrow> bool" where
  "is_open r = (br_return_date r = None)"

text \<open>Modelled from the spec: \<^verbatim>\<open>get_patron_borrow_count\<close> of the absent module \<^verbatim>\<open>database\<close>: the
  number of open records of the patron, over all books (section 4.4).\<close>

definition get_patron_borrow_count :: "database \<Rightarrow> string \<Rightarrow> int" where
  "get_patron_borrow_count db patron_id =
     int (length (filter (\<lambda>r. br_patron_id r = patron_id \<and> is_open r) (borrow_records db)))"

definition next_book_id :: "book list \<Rightarrow> int" where
  "next_book_id bs = fold (\<lambda>b m. max m (bk_id b)) bs 0 + 1"

text \<open>Modelled from the spec: \<^verbatim>\<open>insert_book\<close> of the absent module \<^verbatim>\<open>database\<close>: a new row with the
  next id (section 6).\<close>

definition insert_book ::
  "database \<Rightarrow> bool \<Rightarrow> string \<Rightarrow> string \<Rightarrow> string \<Rightarrow> int \<Rightarrow> int \<Rightarrow> bool \<times> database" where
  "insert_book db ok title author isbn total_copies available_copies =
     (if ok
      then (True, db\<lparr>books := books db @
              [\<lparr>bk_id = next_book_id (books db), bk_title = title, bk_author = author,
                bk_isbn = isbn, bk_total_copies = total_copies,
                bk_available_copies = available_copies\<rparr>]\<rparr>)
      else (False, db))"

text \<open>Modelled from the spec: \<^verbatim>\<open>insert_borrow_record\<close> of the absent module \<^verbatim>\<open>database\<close>: a new
  open record (section 6).\<close>

definition insert_borrow_record ::
  "database \<Rightarrow> bool \<Rightarrow> string \<Rightarrow> int \<Rightarrow> instant \<Rightarrow> instant \<Rightarrow> bool \<times> database" where
  "insert_borrow_record db ok patron_id book_id borrow_date due_date =
     (if ok
      then (True, db\<lparr>borrow_records := borrow_records db @
              [\<lparr>br_patron_id = patron_id, br_book_id = book_id, br_borrow_date = borrow_date,
                br_due_date = due_date, br_return_date = None\<rparr>]\<rparr>)
      else (False, db))"

text \<open>Modelled from the spec: \<^verbatim>\<open>update_book_availability\<close> of the absent module \<^verbatim>\<open>database\<close>,
  the adjustment of availability by a delta of section 6.\<close>

definition update_book_availability :: "database \<Rightarrow> bool \<Rightarrow> int \<Rightarrow> int \<Rightarrow> bool \<times> database" where
  "update_book_availability db ok book_id change =
     (if ok
      then (True, db\<lparr>books := map (\<lambda>b. if bk_id b = book_id
                                          then b\<lparr>bk_available_copies := bk_available_copies b + change\<rparr>
                                          else b) (books db)\<rparr>)
      else (False, db))"

text \<open>Modelled from the spec: closing sets the return date of every open row of the patron
  and the book (section 4.4: the open record of the pair transitions to closed).\<close>

definition close_rows :: "string \<Rightarrow> int \<Rightarrow> instant \<Rightarrow> borrow_record list \<Rightarrow> borrow_record list" where
  "close_rows patron_id book_id return_date rs =
     map (\<lambda>r. if br_patron_id r = patron_id \<and> br_book_id r = book_id \<and> is_open r
              then r\<lparr>br_return_date := Some return_date\<rparr> else r) rs"

text \<open>Modelled from the spec: \<^verbatim>\<open>update_borrow_record_return_date\<close> of the absent module
  \<^verbatim>\<open>database\<close>, the closing of a borrow record of section 6.\<close>

definition update_borrow_record_return_date ::
  "database \<Rightarrow> bool \<Rightarrow> string \<Rightarrow> int \<Rightarrow> instant \<Rightarrow> bool \<times> database" where
  "update_borrow_record_return_date db ok patron_id book_id return_date =
     (if ok
      then (True, db\<lparr>borrow_records := close_rows patron_id book_id return_date (borrow_records db)\<rparr>)
      else (False, db))"

section \<open>The queries the service issues itself\<close>

text \<open>\<^verbatim>\<open>SELECT * FROM borrow_records WHERE patron_id = ? AND book_id = ? AND return_date IS NULL\<close>,
  then \<^verbatim>\<open>fetchone()\<close>.\<close>

definition open_borrow_record :: "database \<Rightarrow> string \<Rightarrow> int \<Rightarrow> borrow_record option" where
  "open_borrow_record db patron_id book_id =
     find (\<lambda>r. br_patron_id r = patron_id \<and> br_book_id r = book_id \<and> is_open r) (borrow_records db)"

text \<open>\<^verbatim>\<open>... WHERE patron_id = ? AND book_id = ? ORDER BY borrow_date DESC LIMIT 1\<close>: a row of
  the greatest borrow date; among rows of the same date SQL leaves the choice open, the
  model takes the earliest row.\<close>

fun latest_of :: "borrow_record list \<Rightarrow> borrow_record option" where
  "latest_of [] = None"
| "latest_of (r # rs) =
     (case latest_of rs of
        None \<Rightarrow> Some r
      | Some r' \<Rightarrow> if br_borrow_date r < br_borrow_date r' then Some r' else Some r)"

definition latest_borrow_record :: "database \<Rightarrow> string \<Rightarrow> int \<Rightarrow> borrow_record option" where
  "latest_borrow_record db patron_id book_id =
     latest_of (filter (\<lambda>r. br_patron_id r = patron_id \<and> br_book_id r = book_id) (borrow_records db))"

section \<open>Late fee calculation\<close>

text \<open>Rounding to the nearest integer, a tie to the even neighbour: the rule of
  \<^verbatim>\<open>round\<close> and of the format \<^verbatim>\<open>.2f\<close>.\<close>

definition round_half_even :: "rat \<Rightarrow> int" where
  "round_half_even s =
     (let f = \<lfloor>s\<rfloor>; r = s - of_int f
      in if r < 1 / 2 then f else if 1 / 2 < r then f + 1 else if even f then f else f + 1)"

text \<open>\<^verbatim>\<open>round(x, 2)\<close>.\<close>

definition round2 :: "rat \<Rightarrow> rat" where
  "round2 x = of_int (round_half_even (x * 100)) / 100"

text \<open>The reference instant: the return date of a closed record, the clock otherwise.\<close>

definition check_date_of :: "borrow_record \<Rightarrow> instant \<Rightarrow> instant" where
  "check_date_of borrow_record now =
     (case br_return_date borrow_record of Some rd \<Rightarrow> rd | None \<Rightarrow> now)"

definition calculate_late_fee_for_book :: "database \<Rightarrow> instant \<Rightarrow> string \<Rightarrow> int \<Rightarrow> fee_info" where
  "calculate_late_fee_for_book db now patron_id book_id =
     (case latest_borrow_record db patron_id book_id of
        None \<Rightarrow> \<lparr>fee_amount = 0, days_overdue = 0, status = ''No borrow record found''\<rparr>
      | Some borrow_record \<Rightarrow>
          (let due_date = br_due_date borrow_record;
               check_date = check_date_of borrow_record now;
               d = timedelta_days check_date due_date
           in if d \<le> 0
              then \<lparr>fee_amount = 0, days_overdue = 0, status = ''Not overdue''\<rparr>
              else (let fee = (if d \<le> 7 then of_int d * (1 / 2)
                               else 7 * (1 / 2) + of_int (d - 7) * 1);
                        fee' = (if 15 < fee then 15 else fee)
                    in \<lparr>fee_amount = round2 fee', days_overdue = d,
                        status = (if 0 < d then ''Overdue'' else ''Not overdue'')\<rparr>)))"


section \<open>Rendering dates and amounts\<close>

text \<open>Decimal digits of a natural number (\<^verbatim>\<open>str(n)\<close>), and zero padding on the left.\<close>

fun str_nat :: "nat \<Rightarrow> string" where
  "str_nat n = (if n < 10 then [char_of (48 + n)] else str_nat (n div 10) @ [char_of (48 + n mod 10)])"

declare str_nat.simps [simp del]

definition zfill :: "nat \<Rightarrow> string \<Rightarrow> string" where
  "zfill w s = replicate (w - length s) (CHR ''0'') @ s"

definition str_int :: "int \<Rightarrow> string" where
  "str_int i = (if i < 0 then ''-'' @ str_nat (nat (- i)) else str_nat (nat i))"

text \<open>The format \<^verbatim>\<open>.2f\<close>.\<close>

definition format_2f :: "rat \<Rightarrow> string" where
  "format_2f x =
     (let c = nat (round_half_even (\<bar>x\<bar> * 100))
      in (if x < 0 then ''-'' else []) @ str_nat (c div 100) @ ''.'' @ zfill 2 (str_nat (c mod 100)))"

text \<open>
  Year, month and day of a proleptic Gregorian day number (day 1 is 0001-01-01), computed
  the way \<^verbatim>\<open>datetime\<close> does: cycles of 400, 100, 4 and 1 years, then the month from the
  day of the year.
\<close>

definition days_before_month :: "int \<Rightarrow> int" where
  "days_before_month m = [0, 0, 31, 59, 90, 120, 151, 181, 212, 243, 273, 304, 334] ! nat m"

definition days_in_month :: "int \<Rightarrow> int" where
  "days_in_month m = [0, 31, 28, 31, 30, 31, 30, 31, 31, 30, 31, 30, 31] ! nat m"

definition ord2ymd :: "int \<Rightarrow> int \<times> int \<times> int" where
  "ord2ymd ordinal =
     (let n = ordinal - 1;
          n400 = n div 146097; r400 = n mod 146097;
          n100 = r400 div 36524; r100 = r400 mod 36524;
          n4 = r100 div 1461; r4 = r100 mod 1461;
          n1 = r4 div 365; r1 = r4 mod 365;
          year = n400 * 400 + 1 + n100 * 100 + n4 * 4 + n1
      in if n1 = 4 \<or> n100 = 4 then (year - 1, 12, 31)
         else (let leapyear = (n1 = 3 \<and> (n4 \<noteq> 24 \<or> n100 = 3));
                   month = (r1 + 50) div 32;
                   preceding = days_before_month month + (if 2 < month \<and> leapyear then 1 else 0)
               in if r1 < preceding
                  then (let month' = month - 1;
                            preceding' = preceding - (days_in_month month'
                                           + (if month' = 2 \<and> leapyear then 1 else 0))
                        in (year, month', r1 - preceding' + 1))
                  else (year, month, r1 - preceding + 1)))"

text \<open>\<^verbatim>\<open>strftime("%Y-%m-%d")\<close> (years from 1000 on, where the year has four digits on every
  platform).\<close>

definition strftime_ymd :: "instant \<Rightarrow> string" where
  "strftime_ymd t =
     (case ord2ymd (t div usec_per_day + 1) of
        (y, m, d) \<Rightarrow> zfill 4 (str_int y) @ ''-'' @ zfill 2 (str_int m) @ ''-'' @ zfill 2 (str_int d))"

definition dquote :: string where
  "dquote = [CHR 0x22]"

definition squote :: string where
  "squote = [CHR 0x27]"

section \<open>Catalog: adding a book\<close>

definition add_book_to_catalog ::
  "database \<Rightarrow> bool \<Rightarrow> string \<Rightarrow> string \<Rightarrow> string \<Rightarrow> int \<Rightarrow> (bool \<times> string) \<times> database" where
  "add_book_to_catalog db insert_ok title author isbn total_copies =
     (if title = [] \<or> strip title = [] then ((False, ''Title is required.''), db)
      else if 200 < length (strip title)
        then ((False, ''Title must be less than 200 characters.''), db)
      else if author = [] \<or> strip author = [] then ((False, ''Author is required.''), db)
      else if 100 < length (strip author)
        then ((False, ''Author must be less than 100 characters.''), db)
      else if length isbn \<noteq> 13 then ((False, ''ISBN must be exactly 13 digits.''), db)
      else if total_copies \<le> 0 then ((False, ''Total copies must be a positive integer.''), db)
      else (case get_book_by_isbn db isbn of
              Some existing \<Rightarrow> ((False, ''A book with this ISBN already exists.''), db)
            | None \<Rightarrow>
                (case insert_book db insert_ok (strip title) (strip author) isbn total_copies total_copies of
                   (success, db') \<Rightarrow>
                     if success
                     then ((True, ''Book '' @ dquote @ strip title @ dquote
                                   @ '' has been successfully added to the catalog.''), db')
                     else ((False, ''Database error occurred while adding the book.''), db'))))"

section \<open>Borrowing and returning\<close>

text \<open>
  \<open>now\<close> is what \<^verbatim>\<open>datetime.now()\<close> returns when the function reads the clock;
  \<open>insert_ok\<close> and \<open>avail_ok\<close> say whether the two writes succeed.
\<close>

definition borrow_book_by_patron ::
  "database \<Rightarrow> instant \<Rightarrow> bool \<Rightarrow> bool \<Rightarrow> string \<Rightarrow> int \<Rightarrow> (bool \<times> string) \<times> database" where
  "borrow_book_by_patron db now insert_ok avail_ok patron_id book_id =
     (if invalid_patron_id patron_id
      then ((False, ''Invalid patron ID. Must be exactly 6 digits.''), db)
      else (case get_book_by_id db book_id of
              None \<Rightarrow> ((False, ''Book not found.''), db)
            | Some book \<Rightarrow>
                if bk_available_copies book \<le> 0
                then ((False, ''This book is currently not available.''), db)
                else if 5 \<le> get_patron_borrow_count db patron_id
                then ((False, ''You have reached the maximum borrowing limit of 5 books.''), db)
                else (let borrow_date = now; due_date = plus_days borrow_date 14
                      in case insert_borrow_record db insert_ok patron_id book_id borrow_date due_date of
                           (borrow_success, db1) \<Rightarrow>
                             if \<not> borrow_success
                             then ((False, ''Database error occurred while creating borrow record.''), db1)
                             else (case update_book_availability db1 avail_ok book_id (- 1) of
                                     (availability_success, db2) \<Rightarrow>
                                       if \<not> availability_success
                                       then ((False, ''Database error occurred while updating book availability.''), db2)
                                       else ((True, ''Successfully borrowed '' @ dquote @ bk_title book @ dquote
                                                     @ ''. Due date: '' @ strftime_ymd due_date @ ''.''), db2)))))"

text \<open>
  \<open>now\<close> is the clock at \<^verbatim>\<open>return_date = datetime.now()\<close>, \<open>now'\<close> the clock when the fee
  calculation called at the end reads it; \<open>close_ok\<close> and \<open>avail_ok\<close> are the two writes.
\<close>

definition return_book_by_patron ::
  "database \<Rightarrow> instant \<Rightarrow> instant \<Rightarrow> bool \<Rightarrow> bool \<Rightarrow> string \<Rightarrow> int \<Rightarrow> (bool \<times> string) \<times> database" where
  "return_book_by_patron db now now' close_ok avail_ok patron_id book_id =
     (if invalid_patron_id patron_id
      then ((False, ''Invalid patron ID. Must be exactly 6 digits.''), db)
      else (case get_book_by_id db book_id of
              None \<Rightarrow> ((False, ''Book not found.''), db)
            | Some book \<Rightarrow>
                (case open_borrow_record db patron_id book_id of
                   None \<Rightarrow> ((False, ''No active borrow record found for this patron and book.''), db)
                 | Some borrow_record \<Rightarrow>
                     (let return_date = now
                      in case update_borrow_record_return_date db close_ok patron_id book_id return_date of
                           (update_success, db1) \<Rightarrow>
                             if \<not> update_success
                             then ((False, ''Database error occurred while updating return date.''), db1)
                             else (case update_book_availability db1 avail_ok book_id 1 of
                                     (availability_success, db2) \<Rightarrow>
                                       if \<not> availability_success
                                       then ((False, ''Database error occurred while updating book availability.''), db2)
                                       else (let late_fee_info = calculate_late_fee_for_book db2 now' patron_id book_id;
                                                 message = ''Successfully returned '' @ dquote @ bk_title book @ dquote @ ''.''
                                             in if 0 < fee_amount late_fee_info
                                                then ((True, message @ '' Late fee: $'' @ format_2f (fee_amount late_fee_info)
                                                              @ '' ('' @ str_int (days_overdue late_fee_info)
                                                              @ '' days overdue).''), db2)
                                                else ((True, message @ '' No late fees.''), db2)))))))"

section \<open>Catalog: searching\<close>

text \<open>SQLite's \<^verbatim>\<open>LOWER\<close> and \<^verbatim>\<open>LIKE\<close>: case is folded for the ASCII letters only; in a
  pattern \<^verbatim>\<open>%\<close> matches any run of characters and \<^verbatim>\<open>_\<close> any single one. \<^verbatim>\<open>LIKE\<close> reads
  its pattern and its text up to the first NUL character (\<^verbatim>\<open>LOWER\<close> and \<^verbatim>\<open>=\<close> read the whole
  value). Patterns are taken within SQLite's limit on the length of a pattern.\<close>

definition sql_lower_char :: "char \<Rightarrow> char" where
  "sql_lower_char c = (let n = (of_char c :: nat) in if 65 \<le> n \<and> n \<le> 90 then char_of (n + 32) else c)"

definition sql_lower :: "string \<Rightarrow> string" where
  "sql_lower s = map sql_lower_char s"

fun like_match :: "string \<Rightarrow> string \<Rightarrow> bool" where
  "like_match [] [] = True"
| "like_match [] (c # cs) = False"
| "like_match (p # ps) [] = (p = CHR ''%'' \<and> like_match ps [])"
| "like_match (p # ps) (c # cs) =
     (if p = CHR ''%'' then like_match ps (c # cs) \<or> like_match (p # ps) cs
      else (p = CHR ''_'' \<or> sql_lower_char p = sql_lower_char c) \<and> like_match ps cs)"

definition until_nul :: "string \<Rightarrow> string" where
  "until_nul s = takeWhile (\<lambda>c. c \<noteq> CHR 0x00) s"

definition sql_like :: "string \<Rightarrow> string \<Rightarrow> bool" where
  "sql_like pattern subject = like_match (until_nul pattern) (until_nul subject)"

text \<open>\<^verbatim>\<open>ORDER BY title\<close> sorts by code points; among rows of equal title SQL leaves the
  order open, the model keeps the table order.\<close>

definition search_books_in_catalog :: "database \<Rightarrow> string \<Rightarrow> string \<Rightarrow> book list" where
  "search_books_in_catalog db search_term search_type =
     (if search_term = [] then []
      else if search_type \<notin> set [''title'', ''author'', ''isbn''] then []
      else if search_type = ''isbn''
        then sort_key bk_title (filter (\<lambda>b. bk_isbn b = search_term) (books db))
      else if search_type = ''title''
        then sort_key bk_title
               (filter (\<lambda>b. sql_like (sql_lower (''%'' @ search_term @ ''%'')) (sql_lower (bk_title b))) (books db))
      else if search_type = ''author''
        then sort_key bk_title
               (filter (\<lambda>b. sql_like (sql_lower (''%'' @ search_term @ ''%'')) (sql_lower (bk_author b))) (books db))
      else [])"


section \<open>Payment gateway and fee settlement\<close>

text \<open>
  The gateway is an external capability. A call either returns its tuple or raises; the
  text of the exception is what \<^verbatim>\<open>str(e)\<close> gives. Every call the service makes is
  recorded, in order, so that "the gateway is not contacted" is "the list of calls is
  empty".
\<close>

datatype 'a reply = Returned 'a | Raised string

record payment_gateway =
  process_payment :: "string \<Rightarrow> rat \<Rightarrow> string \<Rightarrow> (bool \<times> string option \<times> string) reply"
  refund_payment :: "string \<Rightarrow> rat \<Rightarrow> (bool \<times> string) reply"

datatype gateway_call =
  Process_Payment string rat string
| Refund_Payment string rat

text \<open>
  What the fee calculation hands to \<^verbatim>\<open>pay_late_fees\<close>: nothing at all, a dictionary
  without the key \<^verbatim>\<open>fee_amount\<close>, or a dictionary with the amount.
\<close>

datatype fee_lookup = Fee_Missing | Fee_Without_Amount | Fee_Amount rat

definition fee_lookup_of :: "fee_info \<Rightarrow> fee_lookup" where
  "fee_lookup_of info = Fee_Amount (fee_amount info)"

text \<open>
  Modelled from the spec: \<^verbatim>\<open>pay_late_fees\<close> is not among the sources; only its tests are
  (\<^verbatim>\<open>src/tests/test_payment_functions.py\<close>, which replace the fee calculation and the book
  lookup by stubs). The steps and their order are those of section 4.5 of the
  specification; the fee calculation and the book lookup are parameters, as the tests
  stub them. The message texts are the ones the specification quotes.
\<close>

definition pay_late_fees ::
  "(string \<Rightarrow> int \<Rightarrow> fee_lookup) \<Rightarrow> (int \<Rightarrow> book option) \<Rightarrow> payment_gateway \<Rightarrow> string \<Rightarrow> int
     \<Rightarrow> (bool \<times> string \<times> string option) \<times> gateway_call list" where
  "pay_late_fees calculate find_book gateway patron_id book_id =
     (if invalid_patron_id patron_id then ((False, ''Invalid patron ID'', None), [])
      else (case calculate patron_id book_id of
              Fee_Missing \<Rightarrow> ((False, ''Unable to calculate late fees'', None), [])
            | Fee_Without_Amount \<Rightarrow> ((False, ''Unable to calculate late fees'', None), [])
            | Fee_Amount amount \<Rightarrow>
                if amount = 0 then ((False, ''No late fees to pay'', None), [])
                else (case find_book book_id of
                        None \<Rightarrow> ((False, ''Book not found'', None), [])
                      | Some book \<Rightarrow>
                          (let description = ''Late fees for '' @ squote @ bk_title book @ squote;
                               calls = [Process_Payment patron_id amount description]
                           in case process_payment gateway patron_id amount description of
                                Returned (ok, transaction_id, message) \<Rightarrow>
                                  if ok then ((True, ''Payment successful!'', transaction_id), calls)
                                  else ((False, ''Payment failed: '' @ message, None), calls)
                              | Raised fault \<Rightarrow>
                                  ((False, ''Payment processing error: '' @ fault, None), calls)))))"

text \<open>Python's \<^verbatim>\<open>needle in text\<close> on strings.\<close>

fun str_contains :: "string \<Rightarrow> string \<Rightarrow> bool" where
  "str_contains [] needle = (needle = [])"
| "str_contains (c # cs) needle = (take (length needle) (c # cs) = needle \<or> str_contains cs needle)"

text \<open>
  Modelled from the spec: \<^verbatim>\<open>refund_late_fee_payment\<close> is not among the sources; only its
  tests are. The checks, their order and the handling of the gateway's reply are those of
  section 4.5 of the specification; the prefix of a payment transaction id (\<^verbatim>\<open>txn_\<close>) is
  the one the tests name. The text returned when the gateway reports a failure is the
  parameter \<open>decline_text\<close>, applied to the gateway's message, because the two sources
  of it disagree: section 4.5 says the gateway's message is propagated verbatim
  (\<open>decline_text\<close> the identity), and \<^verbatim>\<open>test_refund_declined_by_gateway\<close> requires the
  result to contain \<^verbatim>\<open>Refund failed: \<close> followed by the message.
\<close>

definition refund_late_fee_payment ::
  "(string \<Rightarrow> string) \<Rightarrow> payment_gateway \<Rightarrow> string \<Rightarrow> rat \<Rightarrow> (bool \<times> string) \<times> gateway_call list" where
  "refund_late_fee_payment decline_text gateway transaction_id amount =
     (if transaction_id = [] \<or> take 4 transaction_id \<noteq> ''txn_''
      then ((False, ''Invalid transaction ID''), [])
      else if amount \<le> 0 then ((False, ''Refund amount must be greater than 0''), [])
      else if 15 < amount then ((False, ''Refund amount exceeds maximum late fee''), [])
      else (let calls = [Refund_Payment transaction_id amount]
            in case refund_payment gateway transaction_id amount of
                 Returned (ok, message) \<Rightarrow>
                   if ok then ((True, message), calls)
                   else ((False, decline_text message), calls)
               | Raised fault \<Rightarrow> ((False, ''Refund processing error: '' @ fault), calls)))"

section \<open>Sequences of borrow and return operations\<close>

text \<open>
  One call of the borrowing engine, with everything the environment decides: the clock
  readings and the outcome of the two persistence writes the call may attempt.
\<close>

datatype operation =
  Borrow string int instant bool bool
| Return string int instant instant bool bool

fun step :: "database \<Rightarrow> operation \<Rightarrow> database" where
  "step db (Borrow patron_id book_id now insert_ok avail_ok) =
     snd (borrow_book_by_patron db now insert_ok avail_ok patron_id book_id)"
| "step db (Return patron_id book_id now now' close_ok avail_ok) =
     snd (return_book_by_patron db now now' close_ok avail_ok patron_id book_id)"

definition run :: "database \<Rightarrow> operation list \<Rightarrow> database" where
  "run db ops = foldl step db ops"

text \<open>A borrow whose record insert succeeds and whose availability decrement fails.\<close>

fun half_written :: "operation \<Rightarrow> bool" where
  "half_written (Borrow patron_id book_id now insert_ok avail_ok) = (insert_ok \<and> \<not> avail_ok)"
| "half_written (Return patron_id book_id now now' close_ok avail_ok) = False"

text \<open>The open borrow records of a book.\<close>

definition open_count :: "database \<Rightarrow> int \<Rightarrow> int" where
  "open_count db book_id =
     int (length (filter (\<lambda>r. br_book_id r = book_id \<and> is_open r) (borrow_records db)))"

text \<open>The bounds of the data model on every book.\<close>

definition copies_in_range :: "database \<Rightarrow> bool" where
  "copies_in_range db =
     list_all (\<lambda>b. 0 \<le> bk_available_copies b \<and> bk_available_copies b \<le> bk_total_copies b) (books db)"

text \<open>The lower bound alone, and the lower bound together with the primary key.\<close>

definition copies_nonneg :: "database \<Rightarrow> bool" where
  "copies_nonneg db = list_all (\<lambda>b. 0 \<le> bk_available_copies b) (books db)"

definition keyed_nonneg :: "database \<Rightarrow> bool" where
  "keyed_nonneg db = (distinct (map bk_id (books db)) \<and> copies_nonneg db)"

text \<open>
  A catalog of freshly added books: the ids are distinct (the primary key), every book
  has all its copies available, and no loan is open.
\<close>

definition fresh_catalog :: "database \<Rightarrow> bool" where
  "fresh_catalog db =
     (distinct (map bk_id (books db))
      \<and> list_all (\<lambda>b. 0 \<le> bk_total_copies b \<and> bk_available_copies b = bk_total_copies b) (books db)
      \<and> list_all (\<lambda>r. \<not> is_open r) (borrow_records db))"

text \<open>What the operations maintain: no copy is lent twice.\<close>

definition copies_accounted :: "database \<Rightarrow> bool" where
  "copies_accounted db =
     (distinct (map bk_id (books db))
      \<and> list_all (\<lambda>b. 0 \<le> bk_available_copies b
                     \<and> bk_available_copies b + open_count db (bk_id b) \<le> bk_total_copies b) (books db))"


section \<open>Example data\<close>

text \<open>
  A catalog with one book of one copy, a patron, and a loan taken on 2024-02-29 at
  13:05:07.000123, due fourteen days later; then a shelf of six books of two copies each
  and a patron holding four and five of them.
\<close>

definition t0 :: instant where
  "t0 = 63844808707000123"

definition the_book :: book where
  "the_book = \<lparr>bk_id = 1, bk_title = ''Test Book'', bk_author = ''Test Author'',
     bk_isbn = ''1234567890123'', bk_total_copies = 1, bk_available_copies = 1\<rparr>"

definition loan_open :: borrow_record where
  "loan_open = \<lparr>br_patron_id = ''123456'', br_book_id = 1, br_borrow_date = t0,
     br_due_date = plus_days t0 14, br_return_date = None\<rparr>"

definition loan_closed :: borrow_record where
  "loan_closed = loan_open\<lparr>br_return_date := Some (plus_days t0 25)\<rparr>"

definition db_empty :: database where
  "db_empty = \<lparr>books = [], borrow_records = []\<rparr>"

definition db_fresh :: database where
  "db_fresh = \<lparr>books = [the_book], borrow_records = []\<rparr>"

definition db_on_loan :: database where
  "db_on_loan = \<lparr>books = [the_book\<lparr>bk_available_copies := 0\<rparr>], borrow_records = [loan_open]\<rparr>"

definition db_returned :: database where
  "db_returned = \<lparr>books = [the_book], borrow_records = [loan_closed]\<rparr>"

definition ops_half_written :: "operation list" where
  "ops_half_written =
     [Borrow ''123456'' 1 t0 True False,
      Return ''123456'' 1 (plus_days t0 3) (plus_days t0 3) True True]"

definition ops_with_failures :: "operation list" where
  "ops_with_failures =
     [Borrow ''123456'' 1 t0 False True,
      Borrow ''123456'' 1 t0 True True,
      Borrow ''654321'' 1 (plus_days t0 1) True True,
      Return ''123456'' 1 (plus_days t0 3) (plus_days t0 3) False True,
      Return ''123456'' 1 (plus_days t0 4) (plus_days t0 4) True True,
      Borrow ''654321'' 1 (plus_days t0 5) True True,
      Return ''654321'' 1 (plus_days t0 6) (plus_days t0 6) True False]"

definition book_no :: "int \<Rightarrow> int \<Rightarrow> book" where
  "book_no available i = \<lparr>bk_id = i, bk_title = ''Shelf Book'', bk_author = ''Test Author'',
     bk_isbn = ''978000000000'' @ str_int i, bk_total_copies = 2, bk_available_copies = available\<rparr>"

definition loan_of :: "int \<Rightarrow> borrow_record" where
  "loan_of i = \<lparr>br_patron_id = ''123456'', br_book_id = i, br_borrow_date = t0,
     br_due_date = plus_days t0 14, br_return_date = None\<rparr>"

definition db_four_loans :: database where
  "db_four_loans =
     \<lparr>books = map (book_no 1) [1, 2, 3, 4] @ map (book_no 2) [5, 6],
      borrow_records = map loan_of [1, 2, 3, 4]\<rparr>"

definition db_five_loans :: database where
  "db_five_loans =
     \<lparr>books = map (book_no 1) [1, 2, 3, 4, 5] @ map (book_no 2) [6],
      borrow_records = map loan_of [1, 2, 3, 4, 5]\<rparr>"

text \<open>Gateways: one that declines every refund, one that accepts, one that is down.\<close>

definition gateway_declining :: payment_gateway where
  "gateway_declining =
     \<lparr>process_payment = (\<lambda>patron_id amount description. Returned (False, None, ''Insufficient funds'')),
      refund_payment = (\<lambda>transaction_id amount. Returned (False, ''Transaction already refunded''))\<rparr>"

text \<open>
  \<^verbatim>\<open>test_refund_declined_by_gateway\<close> of \<^verbatim>\<open>src/tests/test_payment_functions.py\<close>: the
  gateway is stubbed with \<^verbatim>\<open>(False, "Transaction already refunded")\<close>, the refund of 10.00
  for \<^verbatim>\<open>txn_999999_test\<close> must fail, its message must contain
  \<^verbatim>\<open>Refund failed: Transaction already refunded\<close>, and the gateway must have been called
  once.
\<close>

definition test_refund_declined_by_gateway :: "(string \<Rightarrow> string) \<Rightarrow> bool" where
  "test_refund_declined_by_gateway decline_text =
     (case refund_late_fee_payment decline_text gateway_declining ''txn_999999_test'' 10 of
        ((success, message), calls) \<Rightarrow>
          success = False
          \<and> str_contains message ''Refund failed: Transaction already refunded''
          \<and> length calls = 1)"

definition gateway_accepting :: payment_gateway where
  "gateway_accepting =
     \<lparr>process_payment = (\<lambda>patron_id amount description.
          Returned (True, Some ''txn_123456_success'', ''Payment processed successfully'')),
      refund_payment = (\<lambda>transaction_id amount. Returned (True, ''Refund processed successfully''))\<rparr>"


section \<open>The late fee schedule\<close>

lemmas example_defs = db_on_loan_def db_returned_def loan_open_def loan_closed_def the_book_def
  t0_def latest_borrow_record_def check_date_of_def timedelta_days_def plus_days_def
  usec_per_day_def

lemma round_half_even_of_int: "round_half_even (of_int n) = n"
  by (simp add: round_half_even_def)

text \<open>Rounding to hundredths leaves every multiple of one half as it is.\<close>

lemma round2_halves: "round2 (of_int k / 2) = of_int k / 2"
proof -
  have "(of_int k / 2 :: rat) * 100 = of_int (50 * k)" by simp
  then have "round_half_even (of_int k / 2 * 100) = 50 * k"
    using round_half_even_of_int by metis
  then show ?thesis by (simp add: round2_def)
qed

lemma round2_capped: "round2 (min 15 (7 / 2 + of_int (d - 7))) = min 15 (7 / 2 + of_int (d - 7))"
proof (cases "(15::rat) \<le> 7 / 2 + of_int (d - 7)")
  case True
  have "round2 (of_int 30 / 2) = of_int 30 / 2" by (rule round2_halves)
  with True show ?thesis by (simp add: min_def)
next
  case False
  then have m: "min 15 (7 / 2 + of_int (d - 7)) = (of_int (2 * d - 7) / 2 :: rat)"
    by (simp add: min_def)
  show ?thesis by (simp only: m round2_halves)
qed

text \<open>
  Claim C1. Let \<open>r\<close> be the borrow record the calculation assesses and \<open>d\<close> the whole-day
  difference between its reference instant (the return date if the record is closed, the
  clock otherwise) and its due date. If \<open>d \<le> 0\<close> the result is fee 0.00, zero days
  overdue and status "Not overdue". If \<open>1 \<le> d \<le> 7\<close> the fee is \<open>d \<times> 0.50\<close> and the status
  "Overdue". If \<open>d > 7\<close> the fee is \<open>3.50 + (d - 7) \<times> 1.00\<close> capped at 15.00 and rounded to
  two decimal places (which changes nothing), with status "Overdue".
\<close>

theorem late_fee_schedule:
  assumes rec: "latest_borrow_record db patron_id book_id = Some r"
    and days: "timedelta_days (check_date_of r now) (br_due_date r) = d"
  shows "(d \<le> 0 \<longrightarrow> calculate_late_fee_for_book db now patron_id book_id
                       = \<lparr>fee_amount = 0, days_overdue = 0, status = ''Not overdue''\<rparr>)
       \<and> (1 \<le> d \<and> d \<le> 7 \<longrightarrow> calculate_late_fee_for_book db now patron_id book_id
                       = \<lparr>fee_amount = of_int d * (1 / 2), days_overdue = d, status = ''Overdue''\<rparr>)
       \<and> (7 < d \<longrightarrow> calculate_late_fee_for_book db now patron_id book_id
                       = \<lparr>fee_amount = round2 (min 15 (7 / 2 + of_int (d - 7) * 1)), days_overdue = d,
                          status = ''Overdue''\<rparr>
                    \<and> round2 (min 15 (7 / 2 + of_int (d - 7) * 1)) = min 15 (7 / 2 + of_int (d - 7) * 1))"
proof (intro conjI impI)
  assume "d \<le> 0"
  with rec days show "calculate_late_fee_for_book db now patron_id book_id
      = \<lparr>fee_amount = 0, days_overdue = 0, status = ''Not overdue''\<rparr>"
    by (simp add: calculate_late_fee_for_book_def)
next
  assume low: "1 \<le> d \<and> d \<le> 7"
  have "round2 (of_int d / 2) = of_int d / 2" by (rule round2_halves)
  moreover have "\<not> (15 :: rat) < of_int d / 2" using low by simp
  ultimately show "calculate_late_fee_for_book db now patron_id book_id
      = \<lparr>fee_amount = of_int d * (1 / 2), days_overdue = d, status = ''Overdue''\<rparr>"
    using rec days low by (simp add: calculate_late_fee_for_book_def Let_def)
next
  assume high: "7 < d"
  show "calculate_late_fee_for_book db now patron_id book_id
      = \<lparr>fee_amount = round2 (min 15 (7 / 2 + of_int (d - 7) * 1)), days_overdue = d, status = ''Overdue''\<rparr>"
    using rec days high by (simp add: calculate_late_fee_for_book_def Let_def min_def)
next
  assume "7 < d"
  show "round2 (min 15 (7 / 2 + of_int (d - 7) * 1)) = min 15 (7 / 2 + of_int (d - 7) * 1)"
    using round2_capped [of d] by simp
qed

text \<open>The open loan assessed 25 days, 19 days and one microsecond short of 14 days after
  the borrow date: 11 days overdue cost 7.50, 5 days cost 2.50, and the loan is not
  overdue before the due instant.\<close>

theorem late_fee_schedule_witness:
  "latest_borrow_record db_on_loan ''123456'' 1 = Some loan_open
   \<and> timedelta_days (check_date_of loan_open (plus_days t0 25)) (br_due_date loan_open) = 11
   \<and> calculate_late_fee_for_book db_on_loan (plus_days t0 25) ''123456'' 1
       = \<lparr>fee_amount = 15 / 2, days_overdue = 11, status = ''Overdue''\<rparr>
   \<and> timedelta_days (check_date_of loan_open (plus_days t0 19)) (br_due_date loan_open) = 5
   \<and> calculate_late_fee_for_book db_on_loan (plus_days t0 19) ''123456'' 1
       = \<lparr>fee_amount = 5 / 2, days_overdue = 5, status = ''Overdue''\<rparr>
   \<and> timedelta_days (check_date_of loan_open (plus_days t0 14 - 1)) (br_due_date loan_open) = - 1
   \<and> calculate_late_fee_for_book db_on_loan (plus_days t0 14 - 1) ''123456'' 1
       = \<lparr>fee_amount = 0, days_overdue = 0, status = ''Not overdue''\<rparr>"
proof -
  have r: "latest_borrow_record db_on_loan ''123456'' 1 = Some loan_open"
    by (simp add: example_defs)
  have d1: "timedelta_days (check_date_of loan_open (plus_days t0 25)) (br_due_date loan_open) = 11"
    by (simp add: example_defs)
  have d2: "timedelta_days (check_date_of loan_open (plus_days t0 19)) (br_due_date loan_open) = 5"
    by (simp add: example_defs)
  have d3: "timedelta_days (check_date_of loan_open (plus_days t0 14 - 1)) (br_due_date loan_open) = - 1"
    by (simp add: example_defs)
  have m: "min (15::rat) (7 / 2 + 4) = 15 / 2" by simp
  show ?thesis
    using r d1 d2 d3 late_fee_schedule [OF r d1] late_fee_schedule [OF r d2]
      late_fee_schedule [OF r d3]
    by (simp add: m)
qed

section \<open>The late fee and the clock\<close>

text \<open>
  Claim C4, as stated, fails: the calculation takes a patron id and a book id only, it
  fetches the record itself and, for an open record, reads the clock. On the same
  database and the same arguments two evaluations differ when the clock differs: the open
  loan costs 7.50 when the clock shows day 25 and 2.50 when it shows day 19.
\<close>

theorem late_fee_reads_clock_counterexample:
  "calculate_late_fee_for_book db_on_loan (plus_days t0 25) ''123456'' 1
     \<noteq> calculate_late_fee_for_book db_on_loan (plus_days t0 19) ''123456'' 1"
  by (simp add: calculate_late_fee_for_book_def example_defs Let_def)

text \<open>
  Claim C4, amended. The assessment is determined by the latest borrow record of the
  pair and its reference instant (the return date of a closed record, the clock reading
  for an open one): two evaluations that find the same record and the same reference
  instant produce identical assessments, whatever the database and the clock otherwise
  are. In particular, when the latest record is closed or there is none, the assessment
  does not depend on the clock.
\<close>

theorem late_fee_determined_by_record_and_reference:
  "(latest_borrow_record db patron_id book_id = latest_borrow_record db' patron_id' book_id'
      \<and> (\<forall>r. latest_borrow_record db patron_id book_id = Some r
              \<longrightarrow> check_date_of r now = check_date_of r now')
      \<longrightarrow> calculate_late_fee_for_book db now patron_id book_id
          = calculate_late_fee_for_book db' now' patron_id' book_id')
   \<and> ((\<forall>r. latest_borrow_record db patron_id book_id = Some r \<longrightarrow> br_return_date r \<noteq> None)
      \<longrightarrow> calculate_late_fee_for_book db now patron_id book_id
          = calculate_late_fee_for_book db now' patron_id book_id)"
  by (auto simp add: calculate_late_fee_for_book_def check_date_of_def Let_def
        split: option.splits)

text \<open>The closed loan, returned on day 25, assessed with the clock at the epoch and with
  the clock at day 400: 7.50 both times.\<close>

theorem late_fee_determined_by_record_and_reference_witness:
  "latest_borrow_record db_returned ''123456'' 1 = Some loan_closed
   \<and> br_return_date loan_closed \<noteq> None
   \<and> check_date_of loan_closed 0 = check_date_of loan_closed (plus_days t0 400)
   \<and> calculate_late_fee_for_book db_returned 0 ''123456'' 1
       = calculate_late_fee_for_book db_returned (plus_days t0 400) ''123456'' 1
   \<and> calculate_late_fee_for_book db_returned 0 ''123456'' 1
       = \<lparr>fee_amount = 15 / 2, days_overdue = 11, status = ''Overdue''\<rparr>"
proof -
  have r: "latest_borrow_record db_returned ''123456'' 1 = Some loan_closed"
    by (simp add: db_returned_def loan_closed_def loan_open_def latest_borrow_record_def)
  have c: "\<forall>r. latest_borrow_record db_returned ''123456'' 1 = Some r
          \<longrightarrow> check_date_of r 0 = check_date_of r (plus_days t0 400)"
    by (simp add: r check_date_of_def loan_closed_def)
  have e: "calculate_late_fee_for_book db_returned 0 ''123456'' 1
       = calculate_late_fee_for_book db_returned (plus_days t0 400) ''123456'' 1"
    using c late_fee_determined_by_record_and_reference
      [of db_returned "''123456''" 1 db_returned "''123456''" 1 0 "plus_days t0 400"]
    by blast
  have v: "calculate_late_fee_for_book db_returned 0 ''123456'' 1
       = \<lparr>fee_amount = 15 / 2, days_overdue = 11, status = ''Overdue''\<rparr>"
    by (simp add: calculate_late_fee_for_book_def example_defs Let_def round2_def round_half_even_def)
  show ?thesis using r e v by (simp add: check_date_of_def loan_closed_def)
qed


section \<open>Availability stays within the copies owned\<close>

lemma find_Some_holds: "find P xs = Some x \<Longrightarrow> P x \<and> x \<in> set xs"
  by (induction xs) (auto split: if_splits)

lemma distinct_key_unique:
  "distinct (map f xs) \<Longrightarrow> x \<in> set xs \<Longrightarrow> y \<in> set xs \<Longrightarrow> f x = f y \<Longrightarrow> x = y"
  by (meson distinct_map inj_onD)

lemma ids_after_availability:
  "bk_id \<circ> (\<lambda>b. if bk_id b = i then b\<lparr>bk_available_copies := bk_available_copies b + c\<rparr> else b)
     = bk_id"
  by (auto simp add: fun_eq_iff)

lemma open_count_nonneg: "0 \<le> open_count db i"
  by (simp add: open_count_def)

lemma open_count_books_update [simp]: "open_count (db\<lparr>books := bs\<rparr>) i = open_count db i"
  by (simp add: open_count_def)

lemma open_count_insert:
  "open_count (db\<lparr>borrow_records := borrow_records db @
       [\<lparr>br_patron_id = p, br_book_id = b, br_borrow_date = t, br_due_date = u, br_return_date = None\<rparr>]\<rparr>) i
     = open_count db i + (if i = b then 1 else 0)"
  by (auto simp add: open_count_def is_open_def)

lemma open_rows_after_close:
  "length (filter (\<lambda>r. br_book_id r = i \<and> is_open r) (close_rows p b t rs))
     \<le> length (filter (\<lambda>r. br_book_id r = i \<and> is_open r) rs)"
  by (induction rs) (auto simp add: close_rows_def is_open_def)

lemma open_rows_after_close_strict:
  "find (\<lambda>r. br_patron_id r = p \<and> br_book_id r = b \<and> is_open r) rs = Some r0 \<Longrightarrow>
   length (filter (\<lambda>r. br_book_id r = b \<and> is_open r) (close_rows p b t rs))
     < length (filter (\<lambda>r. br_book_id r = b \<and> is_open r) rs)"
proof (induction rs)
  case Nil
  then show ?case by simp
next
  case (Cons r rs)
  have le: "length (filter (\<lambda>r. br_book_id r = b \<and> is_open r) (close_rows p b t rs))
     \<le> length (filter (\<lambda>r. br_book_id r = b \<and> is_open r) rs)"
    by (rule open_rows_after_close)
  show ?case
  proof (cases "br_patron_id r = p \<and> br_book_id r = b \<and> is_open r")
    case True
    with le show ?thesis by (simp add: close_rows_def is_open_def)
  next
    case False
    with Cons have "length (filter (\<lambda>r. br_book_id r = b \<and> is_open r) (close_rows p b t rs))
       < length (filter (\<lambda>r. br_book_id r = b \<and> is_open r) rs)"
      by simp
    with False show ?thesis by (auto simp add: close_rows_def)
  qed
qed

lemma open_count_close:
  "open_count (db\<lparr>borrow_records := close_rows p b t (borrow_records db)\<rparr>) i \<le> open_count db i"
  using open_rows_after_close [of i p b t "borrow_records db"] by (simp add: open_count_def)

lemma open_count_close_strict:
  "open_borrow_record db p b = Some r0 \<Longrightarrow>
   open_count (db\<lparr>borrow_records := close_rows p b t (borrow_records db)\<rparr>) b + 1 \<le> open_count db b"
  using open_rows_after_close_strict [of p b "borrow_records db" r0 t]
  by (simp add: open_count_def open_borrow_record_def)

lemma accounted_borrow:
  assumes inv: "copies_accounted db" and ok: "insert_ok \<longrightarrow> avail_ok"
  shows "copies_accounted (snd (borrow_book_by_patron db now insert_ok avail_ok patron_id book_id))"
proof (cases "invalid_patron_id patron_id \<or> get_book_by_id db book_id = None \<or> \<not> insert_ok")
  case True
  with inv show ?thesis
    by (auto simp add: borrow_book_by_patron_def insert_borrow_record_def Let_def split: option.splits)
next
  case False
  then obtain book where bk: "get_book_by_id db book_id = Some book" by auto
  from False ok have flags: "insert_ok" "avail_ok" by auto
  from bk have found: "bk_id book = book_id" "book \<in> set (books db)"
    using find_Some_holds [of "\<lambda>b. bk_id b = book_id" "books db" book]
    by (simp_all add: get_book_by_id_def)
  from inv have dist: "distinct (map bk_id (books db))" by (simp add: copies_accounted_def)
  show ?thesis
  proof (cases "bk_available_copies book \<le> 0 \<or> 5 \<le> get_patron_borrow_count db patron_id")
    case True
    with inv False bk show ?thesis by (auto simp add: borrow_book_by_patron_def)
  next
    case avail: False
    have only: "b = book" if "b \<in> set (books db)" "bk_id b = book_id" for b
      using distinct_key_unique [OF dist that(1) found(2)] that(2) found(1) by simp
    from inv have each: "0 \<le> bk_available_copies b
        \<and> bk_available_copies b + open_count db (bk_id b) \<le> bk_total_copies b"
      if "b \<in> set (books db)" for b
      using that by (simp add: copies_accounted_def list_all_iff)
    from False bk flags avail
    have res: "snd (borrow_book_by_patron db now insert_ok avail_ok patron_id book_id)
        = db\<lparr>borrow_records := borrow_records db @
              [\<lparr>br_patron_id = patron_id, br_book_id = book_id, br_borrow_date = now,
                br_due_date = plus_days now 14, br_return_date = None\<rparr>],
             books := map (\<lambda>b. if bk_id b = book_id
                                then b\<lparr>bk_available_copies := bk_available_copies b + - 1\<rparr>
                                else b) (books db)\<rparr>"
      by (simp add: borrow_book_by_patron_def insert_borrow_record_def
            update_book_availability_def Let_def)
    show ?thesis
      unfolding res copies_accounted_def
      using dist each only avail
      by (auto simp add: list_all_iff open_count_insert ids_after_availability)
  qed
qed


lemma accounted_return:
  assumes inv: "copies_accounted db"
  shows "copies_accounted (snd (return_book_by_patron db now now' close_ok avail_ok patron_id book_id))"
proof (cases "invalid_patron_id patron_id \<or> get_book_by_id db book_id = None
              \<or> open_borrow_record db patron_id book_id = None \<or> \<not> close_ok")
  case True
  with inv show ?thesis
    by (auto simp add: return_book_by_patron_def update_borrow_record_return_date_def Let_def
          split: option.splits)
next
  case False
  then obtain book r0 where bk: "get_book_by_id db book_id = Some book"
    and rec: "open_borrow_record db patron_id book_id = Some r0" by auto
  from inv have dist: "distinct (map bk_id (books db))" by (simp add: copies_accounted_def)
  from inv have each: "0 \<le> bk_available_copies b
      \<and> bk_available_copies b + open_count db (bk_id b) \<le> bk_total_copies b"
    if "b \<in> set (books db)" for b
    using that by (simp add: copies_accounted_def list_all_iff)
  define db1 where "db1 = db\<lparr>borrow_records := close_rows patron_id book_id now (borrow_records db)\<rparr>"
  have le: "open_count db1 i \<le> open_count db i" for i
    unfolding db1_def by (rule open_count_close)
  have lt: "open_count db1 book_id + 1 \<le> open_count db book_id"
    unfolding db1_def using rec by (rule open_count_close_strict)
  have bs1: "books db1 = books db" by (simp add: db1_def)
  have other: "0 \<le> bk_available_copies b
      \<and> bk_available_copies b + open_count db1 (bk_id b) \<le> bk_total_copies b"
    if "b \<in> set (books db)" for b
    using each [OF that] le [of "bk_id b"] by simp
  show ?thesis
  proof (cases avail_ok)
    case False
    with \<open>\<not> (invalid_patron_id patron_id \<or> get_book_by_id db book_id = None
              \<or> open_borrow_record db patron_id book_id = None \<or> \<not> close_ok)\<close> bk rec
    have res: "snd (return_book_by_patron db now now' close_ok avail_ok patron_id book_id) = db1"
      by (simp add: return_book_by_patron_def update_borrow_record_return_date_def
            update_book_availability_def Let_def db1_def)
    show ?thesis
      unfolding res copies_accounted_def
      using dist other bs1 by (simp add: list_all_iff)
  next
    case True
    with \<open>\<not> (invalid_patron_id patron_id \<or> get_book_by_id db book_id = None
              \<or> open_borrow_record db patron_id book_id = None \<or> \<not> close_ok)\<close> bk rec
    have res: "snd (return_book_by_patron db now now' close_ok avail_ok patron_id book_id)
        = db1\<lparr>books := map (\<lambda>b. if bk_id b = book_id
                                then b\<lparr>bk_available_copies := bk_available_copies b + 1\<rparr>
                                else b) (books db1)\<rparr>"
      by (simp add: return_book_by_patron_def update_borrow_record_return_date_def
            update_book_availability_def Let_def db1_def)
    have one: "0 \<le> bk_available_copies b + 1
        \<and> bk_available_copies b + 1 + open_count db1 book_id \<le> bk_total_copies b"
      if "b \<in> set (books db)" "bk_id b = book_id" for b
      using each [OF that(1)] lt that(2) by simp
    show ?thesis
      unfolding res copies_accounted_def
      using dist one other bs1 by (auto simp add: list_all_iff ids_after_availability)
  qed
qed

lemma accounted_step: "copies_accounted db \<Longrightarrow> \<not> half_written x \<Longrightarrow> copies_accounted (step db x)"
  by (cases x) (auto intro: accounted_borrow accounted_return)

lemma accounted_run:
  "copies_accounted db \<Longrightarrow> list_all (\<lambda>x. \<not> half_written x) ops \<Longrightarrow> copies_accounted (run db ops)"
  unfolding run_def
proof (induction ops arbitrary: db)
  case Nil
  then show ?case by simp
next
  case (Cons x ops)
  then show ?case by (simp add: accounted_step)
qed

lemma fresh_accounted: "fresh_catalog db \<Longrightarrow> copies_accounted db"
proof -
  assume f: "fresh_catalog db"
  then have "filter (\<lambda>r. br_book_id r = i \<and> is_open r) (borrow_records db) = []" for i
    by (auto simp add: fresh_catalog_def list_all_iff filter_empty_conv)
  then have "open_count db i = 0" for i by (simp add: open_count_def)
  with f show ?thesis by (simp add: fresh_catalog_def copies_accounted_def list_all_iff)
qed

lemma accounted_in_range: "copies_accounted db \<Longrightarrow> copies_in_range db"
proof -
  assume a: "copies_accounted db"
  have "0 \<le> bk_available_copies b \<and> bk_available_copies b \<le> bk_total_copies b"
    if "b \<in> set (books db)" for b
  proof -
    from a that have "0 \<le> bk_available_copies b
        \<and> bk_available_copies b + open_count db (bk_id b) \<le> bk_total_copies b"
      by (simp add: copies_accounted_def list_all_iff)
    with open_count_nonneg [of db "bk_id b"] show ?thesis by simp
  qed
  then show ?thesis by (simp add: copies_in_range_def list_all_iff)
qed

text \<open>The lower bound needs nothing of the writes: a borrow decrements only a book it has
  just read a copy of, and a return only increments.\<close>

lemma nonneg_borrow:
  assumes inv: "keyed_nonneg db"
  shows "keyed_nonneg (snd (borrow_book_by_patron db now insert_ok avail_ok patron_id book_id))"
proof (cases "get_book_by_id db book_id")
  case None
  with inv show ?thesis by (simp add: borrow_book_by_patron_def)
next
  case (Some book)
  then have found: "bk_id book = book_id" "book \<in> set (books db)"
    using find_Some_holds [of "\<lambda>b. bk_id b = book_id" "books db" book]
    by (simp_all add: get_book_by_id_def)
  from inv have dist: "distinct (map bk_id (books db))" by (simp add: keyed_nonneg_def)
  from inv have each: "0 \<le> bk_available_copies b" if "b \<in> set (books db)" for b
    using that by (simp add: keyed_nonneg_def copies_nonneg_def list_all_iff)
  have only: "b = book" if "b \<in> set (books db)" "bk_id b = book_id" for b
    using distinct_key_unique [OF dist that(1) found(2)] that(2) found(1) by simp
  have dec: "0 \<le> bk_available_copies b + - 1"
    if "b \<in> set (books db)" "bk_id b = book_id" "\<not> bk_available_copies book \<le> 0" for b
    using only [OF that(1,2)] that(3) by simp
  show ?thesis
    using Some dist each dec
    by (auto simp add: borrow_book_by_patron_def insert_borrow_record_def
          update_book_availability_def Let_def keyed_nonneg_def copies_nonneg_def list_all_iff
          ids_after_availability)
qed

lemma nonneg_return:
  assumes inv: "keyed_nonneg db"
  shows "keyed_nonneg (snd (return_book_by_patron db now now' close_ok avail_ok patron_id book_id))"
proof -
  from inv have dist: "distinct (map bk_id (books db))" by (simp add: keyed_nonneg_def)
  from inv have each: "0 \<le> bk_available_copies b" if "b \<in> set (books db)" for b
    using that by (simp add: keyed_nonneg_def copies_nonneg_def list_all_iff)
  have inc: "0 \<le> bk_available_copies b + 1" if "b \<in> set (books db)" for b
    using each [OF that] by simp
  show ?thesis
    using dist each inc
    by (auto simp add: return_book_by_patron_def update_borrow_record_return_date_def
          update_book_availability_def Let_def keyed_nonneg_def copies_nonneg_def list_all_iff
          ids_after_availability split: option.splits)
qed

lemma nonneg_step: "keyed_nonneg db \<Longrightarrow> keyed_nonneg (step db x)"
  by (cases x) (simp_all add: nonneg_borrow nonneg_return)

lemma nonneg_run: "keyed_nonneg db \<Longrightarrow> keyed_nonneg (run db ops)"
  unfolding run_def by (induction ops arbitrary: db) (simp_all add: nonneg_step)

lemma fresh_nonneg: "fresh_catalog db \<Longrightarrow> keyed_nonneg db"
  by (auto simp add: fresh_catalog_def keyed_nonneg_def copies_nonneg_def list_all_iff)

text \<open>
  Claim C2, as stated, fails in its upper bound. When the record insert of a borrow
  succeeds and the availability decrement that follows fails, the function reports a
  database error and leaves the open record behind; the return of that loan then adds a
  copy the borrow never took. From a fresh book of one copy, that borrow and that return
  give 2 available copies of 1.
\<close>

theorem copies_exceed_total_counterexample:
  "fresh_catalog db_fresh
   \<and> map (\<lambda>b. (bk_available_copies b, bk_total_copies b)) (books (run db_fresh ops_half_written)) = [(2, 1)]
   \<and> \<not> copies_in_range (run db_fresh ops_half_written)"
  by code_simp

text \<open>
  Claim C2, amended. In every state reachable from a catalog of freshly added books
  (distinct ids, all copies available, no open loan) by any sequence of borrow and return
  operations, whichever persistence writes fail, every book satisfies
  \<open>0 \<le> available_copies\<close>; and in every such state reached by a sequence in which no
  borrow has its record insert succeed and its availability decrement fail, every book
  satisfies \<open>0 \<le> available_copies \<le> total_copies\<close>. Any other persistence write may fail
  there: the record insert of a borrow, the closing of the record and the availability
  increment of a return.
\<close>

theorem copies_stay_in_range:
  assumes fresh: "fresh_catalog db"
  shows "copies_nonneg (run db ops)
       \<and> (list_all (\<lambda>x. \<not> half_written x) ops \<longrightarrow> copies_in_range (run db ops))"
proof
  from fresh have "keyed_nonneg db" by (rule fresh_nonneg)
  then have "keyed_nonneg (run db ops)" by (rule nonneg_run)
  then show "copies_nonneg (run db ops)" by (simp add: keyed_nonneg_def)
next
  show "list_all (\<lambda>x. \<not> half_written x) ops \<longrightarrow> copies_in_range (run db ops)"
  proof
    assume writes: "list_all (\<lambda>x. \<not> half_written x) ops"
    from fresh have "copies_accounted db" by (rule fresh_accounted)
    then have "copies_accounted (run db ops)" using writes by (rule accounted_run)
    then show "copies_in_range (run db ops)" by (rule accounted_in_range)
  qed
qed

text \<open>Seven operations on the one-copy book, four of them failing (a failed insert, no
  copy available, a failed close, a failed increment): the copy count ends at 0 of 1. And
  the half-written borrow followed by its return: the count, 2 of 1, is still not
  negative.\<close>

theorem copies_stay_in_range_witness:
  "fresh_catalog db_fresh \<and> list_all (\<lambda>x. \<not> half_written x) ops_with_failures
   \<and> copies_in_range (run db_fresh ops_with_failures)
   \<and> map bk_available_copies (books (run db_fresh ops_with_failures)) = [0]
   \<and> copies_nonneg (run db_fresh ops_half_written)"
proof -
  have f: "fresh_catalog db_fresh" by code_simp
  have w: "list_all (\<lambda>x. \<not> half_written x) ops_with_failures" by code_simp
  have v: "map bk_available_copies (books (run db_fresh ops_with_failures)) = [0]" by code_simp
  from copies_stay_in_range [OF f, of ops_with_failures]
    copies_stay_in_range [OF f, of ops_half_written] f w v
  show ?thesis by simp
qed

section \<open>The borrowing limit\<close>

text \<open>
  Claim C3. For a valid patron id and an existing book with a copy available, the borrow
  is rejected with the message about the maximum borrowing limit of 5 books exactly when
  the patron already holds 5 or more open borrow records, counted over all books; with
  fewer than 5 (so with 4) the borrow succeeds when its two writes do.
\<close>

theorem borrow_limit:
  assumes "\<not> invalid_patron_id patron_id"
    and "get_book_by_id db book_id = Some book"
    and "0 < bk_available_copies book"
  shows "(snd (fst (borrow_book_by_patron db now insert_ok avail_ok patron_id book_id))
            = ''You have reached the maximum borrowing limit of 5 books.''
          \<longleftrightarrow> 5 \<le> get_patron_borrow_count db patron_id)
       \<and> (5 \<le> get_patron_borrow_count db patron_id
            \<longrightarrow> \<not> fst (fst (borrow_book_by_patron db now insert_ok avail_ok patron_id book_id)))
       \<and> (get_patron_borrow_count db patron_id < 5 \<and> insert_ok \<and> avail_ok
            \<longrightarrow> fst (fst (borrow_book_by_patron db now insert_ok avail_ok patron_id book_id)))
       \<and> get_patron_borrow_count db patron_id
            = int (length (filter (\<lambda>r. br_patron_id r = patron_id \<and> br_return_date r = None)
                            (borrow_records db)))"
  using assms
  by (simp add: borrow_book_by_patron_def insert_borrow_record_def update_book_availability_def
        get_patron_borrow_count_def is_open_def Let_def dquote_def)


text \<open>The patron holding four of the six shelf books borrows the fifth; holding five, the
  sixth is refused.\<close>

theorem borrow_limit_witness:
  "\<not> invalid_patron_id ''123456''
   \<and> get_book_by_id db_four_loans 5 = Some (book_no 2 5) \<and> 0 < bk_available_copies (book_no 2 5)
   \<and> get_patron_borrow_count db_four_loans ''123456'' = 4
   \<and> fst (fst (borrow_book_by_patron db_four_loans t0 True True ''123456'' 5))
   \<and> get_book_by_id db_five_loans 6 = Some (book_no 2 6) \<and> 0 < bk_available_copies (book_no 2 6)
   \<and> get_patron_borrow_count db_five_loans ''123456'' = 5
   \<and> fst (borrow_book_by_patron db_five_loans t0 True True ''123456'' 6)
       = (False, ''You have reached the maximum borrowing limit of 5 books.'')"
proof -
  have p: "\<not> invalid_patron_id ''123456''" by code_simp
  have b5: "get_book_by_id db_four_loans 5 = Some (book_no 2 5)"
    by (simp add: get_book_by_id_def db_four_loans_def book_no_def)
  have b6: "get_book_by_id db_five_loans 6 = Some (book_no 2 6)"
    by (simp add: get_book_by_id_def db_five_loans_def book_no_def)
  have a5: "0 < bk_available_copies (book_no 2 5)" by (simp add: book_no_def)
  have a6: "0 < bk_available_copies (book_no 2 6)" by (simp add: book_no_def)
  have c4: "get_patron_borrow_count db_four_loans ''123456'' = 4"
    by (simp add: get_patron_borrow_count_def db_four_loans_def loan_of_def is_open_def)
  have c5: "get_patron_borrow_count db_five_loans ''123456'' = 5"
    by (simp add: get_patron_borrow_count_def db_five_loans_def loan_of_def is_open_def)
  from borrow_limit [OF p b5 a5, of t0 True True] c4
  have s: "fst (fst (borrow_book_by_patron db_four_loans t0 True True ''123456'' 5))" by simp
  from borrow_limit [OF p b6 a6, of t0 True True] c5
  have r: "fst (borrow_book_by_patron db_five_loans t0 True True ''123456'' 6)
       = (False, ''You have reached the maximum borrowing limit of 5 books.'')"
    by (simp add: prod_eq_iff)
  from p b5 b6 a5 a6 c4 c5 s r show ?thesis by simp
qed


section \<open>Returning without an open record\<close>

text \<open>
  Claim C8. For a valid patron id and an existing book, when no borrow record of the pair
  has a null return date, the return fails with "No active borrow record found for this
  patron and book.", closed records of the pair notwithstanding; an unknown book id fails
  with "Book not found.", a different message.
\<close>

theorem return_without_open_record:
  assumes "\<not> invalid_patron_id patron_id"
    and "get_book_by_id db book_id = Some book"
    and "\<forall>r \<in> set (borrow_records db).
           br_patron_id r = patron_id \<and> br_book_id r = book_id \<longrightarrow> br_return_date r \<noteq> None"
  shows "return_book_by_patron db now now' close_ok avail_ok patron_id book_id
           = ((False, ''No active borrow record found for this patron and book.''), db)
       \<and> (get_book_by_id db other_id = None
            \<longrightarrow> return_book_by_patron db now now' close_ok avail_ok patron_id other_id
                  = ((False, ''Book not found.''), db))
       \<and> ''No active borrow record found for this patron and book.'' \<noteq> ''Book not found.''"
proof -
  from assms(3) have "open_borrow_record db patron_id book_id = None"
    by (auto simp add: open_borrow_record_def find_None_iff is_open_def)
  with assms(1,2) show ?thesis by (simp add: return_book_by_patron_def)
qed

text \<open>The catalog whose only record of the pair is closed, and the unknown book 999.\<close>

theorem return_without_open_record_witness:
  "\<not> invalid_patron_id ''123456''
   \<and> get_book_by_id db_returned 1 = Some the_book
   \<and> borrow_records db_returned = [loan_closed]
   \<and> br_patron_id loan_closed = ''123456'' \<and> br_book_id loan_closed = 1
   \<and> br_return_date loan_closed \<noteq> None
   \<and> return_book_by_patron db_returned (plus_days t0 30) (plus_days t0 30) True True ''123456'' 1
       = ((False, ''No active borrow record found for this patron and book.''), db_returned)
   \<and> get_book_by_id db_returned 999 = None
   \<and> return_book_by_patron db_returned (plus_days t0 30) (plus_days t0 30) True True ''123456'' 999
       = ((False, ''Book not found.''), db_returned)"
proof -
  have p: "\<not> invalid_patron_id ''123456''" by code_simp
  have b: "get_book_by_id db_returned 1 = Some the_book"
    by (simp add: get_book_by_id_def db_returned_def the_book_def)
  have n: "get_book_by_id db_returned 999 = None"
    by (simp add: get_book_by_id_def db_returned_def the_book_def)
  have rs: "borrow_records db_returned = [loan_closed]"
    by (simp add: db_returned_def)
  have c: "\<forall>r \<in> set (borrow_records db_returned).
           br_patron_id r = ''123456'' \<and> br_book_id r = 1 \<longrightarrow> br_return_date r \<noteq> None"
    by (simp add: rs loan_closed_def)
  from return_without_open_record [OF p b c, of "plus_days t0 30" "plus_days t0 30" True True 999]
    p b n rs
  show ?thesis by (simp add: loan_closed_def loan_open_def)
qed

section \<open>Failed checks write nothing\<close>

text \<open>
  Claim C10. When a borrow fails on a check made before its writes (invalid patron id,
  unknown book, no available copy, borrowing limit reached) or a return does (invalid
  patron id, unknown book, no open borrow record), the call fails, the database it leaves
  is the database it found, and its result does not depend on whether a write would have
  succeeded: no write is issued.
\<close>

theorem failed_checks_write_nothing:
  "(invalid_patron_id patron_id \<or> get_book_by_id db book_id = None
      \<or> (\<exists>book. get_book_by_id db book_id = Some book \<and> bk_available_copies book \<le> 0)
      \<or> 5 \<le> get_patron_borrow_count db patron_id
    \<longrightarrow> \<not> fst (fst (borrow_book_by_patron db now insert_ok avail_ok patron_id book_id))
        \<and> snd (borrow_book_by_patron db now insert_ok avail_ok patron_id book_id) = db
        \<and> borrow_book_by_patron db now insert_ok avail_ok patron_id book_id
            = borrow_book_by_patron db now insert_ok' avail_ok' patron_id book_id)
   \<and> (invalid_patron_id patron_id \<or> get_book_by_id db book_id = None
      \<or> open_borrow_record db patron_id book_id = None
    \<longrightarrow> \<not> fst (fst (return_book_by_patron db now now' close_ok avail_ok patron_id book_id))
        \<and> snd (return_book_by_patron db now now' close_ok avail_ok patron_id book_id) = db
        \<and> return_book_by_patron db now now' close_ok avail_ok patron_id book_id
            = return_book_by_patron db now now' close_ok' avail_ok' patron_id book_id)"
  by (auto simp add: borrow_book_by_patron_def return_book_by_patron_def split: option.splits)


text \<open>On the catalog whose only record is closed: a malformed patron id and an unknown
  book for the borrow, no open record for the return.\<close>

theorem failed_checks_write_nothing_witness:
  "invalid_patron_id ''12A456''
   \<and> snd (borrow_book_by_patron db_returned t0 True True ''12A456'' 1) = db_returned
   \<and> get_book_by_id db_returned 999 = None
   \<and> snd (borrow_book_by_patron db_returned t0 True True ''123456'' 999) = db_returned
   \<and> open_borrow_record db_returned ''123456'' 1 = None
   \<and> snd (return_book_by_patron db_returned t0 t0 True True ''123456'' 1) = db_returned
   \<and> \<not> fst (fst (return_book_by_patron db_returned t0 t0 True True ''123456'' 1))"
proof -
  have i: "invalid_patron_id ''12A456''" by code_simp
  have n: "get_book_by_id db_returned 999 = None"
    by (simp add: get_book_by_id_def db_returned_def the_book_def)
  have r: "open_borrow_record db_returned ''123456'' 1 = None"
    by (simp add: open_borrow_record_def db_returned_def loan_closed_def is_open_def)
  from i n r
    failed_checks_write_nothing [of "''12A456''" db_returned 1 t0 True True True True t0 True True]
    failed_checks_write_nothing [of "''123456''" db_returned 999 t0 True True True True t0 True True]
    failed_checks_write_nothing [of "''123456''" db_returned 1 t0 True True True True t0 True True]
  show ?thesis by simp
qed


section \<open>Adding a book, then searching by ISBN\<close>

lemma isbns_after_availability:
  "bk_isbn \<circ> (\<lambda>b. if bk_id b = i then b\<lparr>bk_available_copies := bk_available_copies b + c\<rparr> else b)
     = bk_isbn"
  by (auto simp add: fun_eq_iff)

lemma isbns_after_borrow:
  "map bk_isbn (books (snd (borrow_book_by_patron db now insert_ok avail_ok patron_id book_id)))
     = map bk_isbn (books db)"
  by (simp add: borrow_book_by_patron_def insert_borrow_record_def update_book_availability_def
        Let_def isbns_after_availability split: option.splits)

lemma isbns_after_return:
  "map bk_isbn (books (snd (return_book_by_patron db now now' close_ok avail_ok patron_id book_id)))
     = map bk_isbn (books db)"
  by (simp add: return_book_by_patron_def update_borrow_record_return_date_def
        update_book_availability_def Let_def isbns_after_availability split: option.splits)

lemma isbns_after_step: "map bk_isbn (books (step db x)) = map bk_isbn (books db)"
  by (cases x) (simp_all add: isbns_after_borrow isbns_after_return)

lemma isbns_after_run: "map bk_isbn (books (run db ops)) = map bk_isbn (books db)"
  unfolding run_def by (induction ops arbitrary: db) (simp_all add: isbns_after_step)

text \<open>The rows of a given ISBN are as many in two tables that list the same ISBNs.\<close>

lemma isbn_matches_count:
  "length (filter (\<lambda>b. bk_isbn b = i) xs) = count_list (map bk_isbn xs) i"
  by (induction xs) simp_all

lemma isbn_matches_same_length:
  assumes "map bk_isbn bs = map bk_isbn bs'"
  shows "length (filter (\<lambda>b. bk_isbn b = i) bs) = length (filter (\<lambda>b. bk_isbn b = i) bs')"
  by (simp only: isbn_matches_count assms)

lemma single_match:
  assumes "length (filter P xs) = 1"
  shows "\<exists>b. filter P xs = [b] \<and> P b"
proof -
  from assms obtain b where b: "filter P xs = [b]"
    by (cases "filter P xs") auto
  then have "b \<in> set (filter P xs)" by simp
  then have "P b" by simp
  with b show ?thesis by blast
qed

lemma added_book:
  assumes "add_book_to_catalog db insert_ok title author isbn total_copies = ((True, msg), db')"
  shows "isbn \<noteq> [] \<and> filter (\<lambda>b. bk_isbn b = isbn) (books db) = []
       \<and> (\<exists>new. books db' = books db @ [new] \<and> bk_isbn new = isbn
              \<and> bk_available_copies new = total_copies \<and> bk_total_copies new = total_copies)"
proof -
  from assms have none: "get_book_by_isbn db isbn = None" and len: "length isbn = 13"
    and ok: "insert_ok"
    by (auto simp add: add_book_to_catalog_def insert_book_def split: if_splits option.splits)
  from none have "filter (\<lambda>b. bk_isbn b = isbn) (books db) = []"
    by (simp add: get_book_by_isbn_def find_None_iff filter_empty_conv)
  moreover from len have "isbn \<noteq> []" by auto
  moreover from assms none ok
  have "\<exists>new. books db' = books db @ [new] \<and> bk_isbn new = isbn
            \<and> bk_available_copies new = total_copies \<and> bk_total_copies new = total_copies"
    by (auto simp add: add_book_to_catalog_def insert_book_def split: if_splits)
  ultimately show ?thesis by simp
qed

text \<open>
  Claim C9. After a successful \<^verbatim>\<open>add_book_to_catalog\<close> with ISBN \<open>i\<close>, the search for \<open>i\<close>
  of kind \<^verbatim>\<open>isbn\<close> returns exactly one book, whose ISBN is \<open>i\<close>, in the catalog the insert
  leaves and in every catalog reached from it by borrows and returns; and a search of a
  kind other than \<^verbatim>\<open>title\<close>, \<^verbatim>\<open>author\<close> and \<^verbatim>\<open>isbn\<close> returns the empty list, whatever
  the term and the catalog.
\<close>

theorem add_then_search_by_isbn:
  assumes "add_book_to_catalog db insert_ok title author isbn total_copies = ((True, msg), db')"
  shows "(\<exists>b. search_books_in_catalog (run db' ops) isbn ''isbn'' = [b] \<and> bk_isbn b = isbn)
       \<and> (search_type \<noteq> ''title'' \<and> search_type \<noteq> ''author'' \<and> search_type \<noteq> ''isbn''
            \<longrightarrow> search_books_in_catalog db2 search_term search_type = [])"
proof
  from added_book [OF assms] obtain new where ne: "isbn \<noteq> []"
    and before: "filter (\<lambda>b. bk_isbn b = isbn) (books db) = []"
    and after: "books db' = books db @ [new]" and new: "bk_isbn new = isbn"
    by blast
  from before after new have "length (filter (\<lambda>b. bk_isbn b = isbn) (books db')) = 1" by simp
  with isbn_matches_same_length [OF isbns_after_run [of db' ops], of isbn]
  have "length (filter (\<lambda>b. bk_isbn b = isbn) (books (run db' ops))) = 1" by simp
  from single_match [OF this] obtain b
    where "filter (\<lambda>b. bk_isbn b = isbn) (books (run db' ops)) = [b]" and "bk_isbn b = isbn"
    by blast
  with ne show "\<exists>b. search_books_in_catalog (run db' ops) isbn ''isbn'' = [b] \<and> bk_isbn b = isbn"
    by (simp add: search_books_in_catalog_def)
next
  show "search_type \<noteq> ''title'' \<and> search_type \<noteq> ''author'' \<and> search_type \<noteq> ''isbn''
          \<longrightarrow> search_books_in_catalog db2 search_term search_type = []"
    by (simp add: search_books_in_catalog_def)
qed

text \<open>A second book added to the one-book catalog, borrowed, and searched by its ISBN;
  and a search of kind \<^verbatim>\<open>publisher\<close>.\<close>

theorem add_then_search_by_isbn_witness:
  "add_book_to_catalog db_fresh True ''  Dune '' ''Frank Herbert'' ''9780441013593'' 3
     = ((True, ''Book '' @ dquote @ ''Dune'' @ dquote @ '' has been successfully added to the catalog.''),
        db_fresh\<lparr>books := [the_book, \<lparr>bk_id = 2, bk_title = ''Dune'', bk_author = ''Frank Herbert'',
            bk_isbn = ''9780441013593'', bk_total_copies = 3, bk_available_copies = 3\<rparr>]\<rparr>)
   \<and> search_books_in_catalog
         (run (db_fresh\<lparr>books := [the_book, \<lparr>bk_id = 2, bk_title = ''Dune'', bk_author = ''Frank Herbert'',
            bk_isbn = ''9780441013593'', bk_total_copies = 3, bk_available_copies = 3\<rparr>]\<rparr>)
            [Borrow ''123456'' 2 t0 True True]) ''9780441013593'' ''isbn''
       = [\<lparr>bk_id = 2, bk_title = ''Dune'', bk_author = ''Frank Herbert'',
            bk_isbn = ''9780441013593'', bk_total_copies = 3, bk_available_copies = 2\<rparr>]
   \<and> search_books_in_catalog db_fresh ''Dune'' ''publisher'' = []"
proof -
  have a: "add_book_to_catalog db_fresh True ''  Dune '' ''Frank Herbert'' ''9780441013593'' 3
     = ((True, ''Book '' @ dquote @ ''Dune'' @ dquote @ '' has been successfully added to the catalog.''),
        db_fresh\<lparr>books := [the_book, \<lparr>bk_id = 2, bk_title = ''Dune'', bk_author = ''Frank Herbert'',
            bk_isbn = ''9780441013593'', bk_total_copies = 3, bk_available_copies = 3\<rparr>]\<rparr>)"
    by code_simp
  have s: "search_books_in_catalog
         (run (db_fresh\<lparr>books := [the_book, \<lparr>bk_id = 2, bk_title = ''Dune'', bk_author = ''Frank Herbert'',
            bk_isbn = ''9780441013593'', bk_total_copies = 3, bk_available_copies = 3\<rparr>]\<rparr>)
            [Borrow ''123456'' 2 t0 True True]) ''9780441013593'' ''isbn''
       = [\<lparr>bk_id = 2, bk_title = ''Dune'', bk_author = ''Frank Herbert'',
            bk_isbn = ''9780441013593'', bk_total_copies = 3, bk_available_copies = 2\<rparr>]"
    by code_simp
  from add_then_search_by_isbn [OF a, of "[Borrow ''123456'' 2 t0 True True]" "''publisher''" db_fresh "''Dune''"]
  have e: "search_books_in_catalog db_fresh ''Dune'' ''publisher'' = []" by simp
  from a s e show ?thesis by simp
qed


section \<open>Settling and refunding a fee\<close>

text \<open>
  Claim C5. \<^verbatim>\<open>pay_late_fees\<close> does not call the gateway when the patron id is malformed,
  when the fee information is missing or has no fee amount, when the fee amount is 0, or
  when the book is not found: in each case the call fails with a null transaction id, and
  the message is the one of the first check that fails ("Invalid patron ID", "Unable to
  calculate late fees", "No late fees to pay", "Book not found").
\<close>

theorem pay_late_fees_guards:
  "(invalid_patron_id patron_id \<or> calculate patron_id book_id = Fee_Missing
      \<or> calculate patron_id book_id = Fee_Without_Amount
      \<or> calculate patron_id book_id = Fee_Amount 0 \<or> find_book book_id = None
    \<longrightarrow> snd (pay_late_fees calculate find_book gateway patron_id book_id) = []
        \<and> \<not> fst (fst (pay_late_fees calculate find_book gateway patron_id book_id))
        \<and> snd (snd (fst (pay_late_fees calculate find_book gateway patron_id book_id))) = None)
   \<and> (invalid_patron_id patron_id
    \<longrightarrow> pay_late_fees calculate find_book gateway patron_id book_id
          = ((False, ''Invalid patron ID'', None), []))
   \<and> (\<not> invalid_patron_id patron_id
        \<and> (calculate patron_id book_id = Fee_Missing \<or> calculate patron_id book_id = Fee_Without_Amount)
    \<longrightarrow> pay_late_fees calculate find_book gateway patron_id book_id
          = ((False, ''Unable to calculate late fees'', None), []))
   \<and> (\<not> invalid_patron_id patron_id \<and> calculate patron_id book_id = Fee_Amount 0
    \<longrightarrow> pay_late_fees calculate find_book gateway patron_id book_id
          = ((False, ''No late fees to pay'', None), []))
   \<and> (\<not> invalid_patron_id patron_id \<and> calculate patron_id book_id = Fee_Amount amount
        \<and> amount \<noteq> 0 \<and> find_book book_id = None
    \<longrightarrow> pay_late_fees calculate find_book gateway patron_id book_id
          = ((False, ''Book not found'', None), []))"
  by (auto simp add: pay_late_fees_def split: fee_lookup.splits option.splits)

text \<open>The four refusals, on the catalog with the overdue open loan: a five-digit patron
  id, a calculation that returns nothing, a loan that is not overdue, and a fee of 7.50
  for a book the lookup does not find.\<close>

theorem pay_late_fees_guards_witness:
  "invalid_patron_id ''12345''
   \<and> pay_late_fees (\<lambda>p b. Fee_Missing) (get_book_by_id db_on_loan) gateway_accepting ''12345'' 1
       = ((False, ''Invalid patron ID'', None), [])
   \<and> \<not> invalid_patron_id ''123456''
   \<and> pay_late_fees (\<lambda>p b. Fee_Missing) (get_book_by_id db_on_loan) gateway_accepting ''123456'' 1
       = ((False, ''Unable to calculate late fees'', None), [])
   \<and> fee_lookup_of (calculate_late_fee_for_book db_on_loan (plus_days t0 3) ''123456'' 1) = Fee_Amount 0
   \<and> pay_late_fees (\<lambda>p b. fee_lookup_of (calculate_late_fee_for_book db_on_loan (plus_days t0 3) p b))
         (get_book_by_id db_on_loan) gateway_accepting ''123456'' 1
       = ((False, ''No late fees to pay'', None), [])
   \<and> fee_lookup_of (calculate_late_fee_for_book db_on_loan (plus_days t0 25) ''123456'' 1)
       = Fee_Amount (15 / 2)
   \<and> get_book_by_id db_empty 1 = None
   \<and> pay_late_fees (\<lambda>p b. fee_lookup_of (calculate_late_fee_for_book db_on_loan (plus_days t0 25) p b))
         (get_book_by_id db_empty) gateway_accepting ''123456'' 1
       = ((False, ''Book not found'', None), [])"
proof -
  have i: "invalid_patron_id ''12345''" by code_simp
  have v: "\<not> invalid_patron_id ''123456''" by code_simp
  have z: "fee_lookup_of (calculate_late_fee_for_book db_on_loan (plus_days t0 3) ''123456'' 1) = Fee_Amount 0"
    by (simp add: fee_lookup_of_def calculate_late_fee_for_book_def example_defs Let_def)
  have f: "fee_lookup_of (calculate_late_fee_for_book db_on_loan (plus_days t0 25) ''123456'' 1)
       = Fee_Amount (15 / 2)"
    by (simp add: fee_lookup_of_def calculate_late_fee_for_book_def example_defs Let_def
          round2_def round_half_even_def)
  have n: "get_book_by_id db_empty 1 = None" by (simp add: get_book_by_id_def db_empty_def)
  from i pay_late_fees_guards [of "''12345''" "\<lambda>p b. Fee_Missing" 1 "get_book_by_id db_on_loan"
      gateway_accepting 0]
  have a: "pay_late_fees (\<lambda>p b. Fee_Missing) (get_book_by_id db_on_loan) gateway_accepting ''12345'' 1
       = ((False, ''Invalid patron ID'', None), [])" by blast
  from v pay_late_fees_guards [of "''123456''" "\<lambda>p b. Fee_Missing" 1 "get_book_by_id db_on_loan"
      gateway_accepting 0]
  have b: "pay_late_fees (\<lambda>p b. Fee_Missing) (get_book_by_id db_on_loan) gateway_accepting ''123456'' 1
       = ((False, ''Unable to calculate late fees'', None), [])" by blast
  from v z pay_late_fees_guards [of "''123456''"
      "\<lambda>p b. fee_lookup_of (calculate_late_fee_for_book db_on_loan (plus_days t0 3) p b)" 1
      "get_book_by_id db_on_loan" gateway_accepting 0]
  have c: "pay_late_fees (\<lambda>p b. fee_lookup_of (calculate_late_fee_for_book db_on_loan (plus_days t0 3) p b))
         (get_book_by_id db_on_loan) gateway_accepting ''123456'' 1
       = ((False, ''No late fees to pay'', None), [])" by blast
  from v f n pay_late_fees_guards [of "''123456''"
      "\<lambda>p b. fee_lookup_of (calculate_late_fee_for_book db_on_loan (plus_days t0 25) p b)" 1
      "get_book_by_id db_empty" gateway_accepting "15 / 2"]
  have d: "pay_late_fees (\<lambda>p b. fee_lookup_of (calculate_late_fee_for_book db_on_loan (plus_days t0 25) p b))
         (get_book_by_id db_empty) gateway_accepting ''123456'' 1
       = ((False, ''Book not found'', None), [])" by simp
  from i v z f n a b c d show ?thesis by simp
qed

text \<open>
  Claim C6. \<^verbatim>\<open>refund_late_fee_payment\<close> rejects every amount that is 0 or less and every
  amount above 15.00 without calling the gateway, for any transaction id; for a
  transaction id that passes its own check the messages are "Refund amount must be
  greater than 0" and "Refund amount exceeds maximum late fee", and an amount of exactly
  15.00 passes validation: the gateway's refund is called, once, with the transaction id
  and 15.00.
\<close>

theorem refund_amount_bounds:
  "(amount \<le> 0 \<or> 15 < amount
    \<longrightarrow> \<not> fst (fst (refund_late_fee_payment decline_text gateway transaction_id amount))
        \<and> snd (refund_late_fee_payment decline_text gateway transaction_id amount) = [])
   \<and> (transaction_id \<noteq> [] \<and> take 4 transaction_id = ''txn_''
    \<longrightarrow> (amount \<le> 0 \<longrightarrow> refund_late_fee_payment decline_text gateway transaction_id amount
                           = ((False, ''Refund amount must be greater than 0''), []))
        \<and> (15 < amount \<longrightarrow> refund_late_fee_payment decline_text gateway transaction_id amount
                           = ((False, ''Refund amount exceeds maximum late fee''), []))
        \<and> snd (refund_late_fee_payment decline_text gateway transaction_id 15)
            = [Refund_Payment transaction_id 15])"
  by (auto simp add: refund_late_fee_payment_def Let_def split: reply.splits)

text \<open>The amounts of the tests: 0, -5, 15.01 and 20 are refused, 15 reaches the gateway.\<close>

theorem refund_amount_bounds_witness:
  "take 4 ''txn_123456_test'' = ''txn_''
   \<and> refund_late_fee_payment (\<lambda>m. m) gateway_accepting ''txn_123456_test'' 0
       = ((False, ''Refund amount must be greater than 0''), [])
   \<and> refund_late_fee_payment (\<lambda>m. m) gateway_accepting ''txn_123456_test'' (- 5)
       = ((False, ''Refund amount must be greater than 0''), [])
   \<and> refund_late_fee_payment (\<lambda>m. m) gateway_accepting ''txn_123456_test'' (1501 / 100)
       = ((False, ''Refund amount exceeds maximum late fee''), [])
   \<and> refund_late_fee_payment (\<lambda>m. m) gateway_accepting ''txn_123456_test'' 20
       = ((False, ''Refund amount exceeds maximum late fee''), [])
   \<and> refund_late_fee_payment (\<lambda>m. m) gateway_accepting ''txn_123456_test'' 15
       = ((True, ''Refund processed successfully''), [Refund_Payment ''txn_123456_test'' 15])"
proof -
  have t: "''txn_123456_test'' \<noteq> [] \<and> take 4 ''txn_123456_test'' = ''txn_''" by simp
  have ok: "refund_late_fee_payment (\<lambda>m. m) gateway_accepting ''txn_123456_test'' 15
       = ((True, ''Refund processed successfully''), [Refund_Payment ''txn_123456_test'' 15])"
    by (simp add: refund_late_fee_payment_def gateway_accepting_def)
  from t ok
    refund_amount_bounds [of 0 "\<lambda>m. m" gateway_accepting "''txn_123456_test''"]
    refund_amount_bounds [of "- 5" "\<lambda>m. m" gateway_accepting "''txn_123456_test''"]
    refund_amount_bounds [of "1501 / 100" "\<lambda>m. m" gateway_accepting "''txn_123456_test''"]
    refund_amount_bounds [of 20 "\<lambda>m. m" gateway_accepting "''txn_123456_test''"]
  show ?thesis by simp
qed

section \<open>The gateway's reply to a refund\<close>

lemma str_contains_length: "str_contains s needle \<Longrightarrow> length needle \<le> length s"
proof (induction s)
  case Nil
  then show ?case by simp
next
  case (Cons c cs)
  from Cons.prems have "take (length needle) (c # cs) = needle \<or> str_contains cs needle"
    by simp
  then show ?case
  proof
    assume "take (length needle) (c # cs) = needle"
    then have "length (take (length needle) (c # cs)) = length needle" by simp
    then have "min (length (c # cs)) (length needle) = length needle" by (simp only: length_take)
    then show ?thesis by simp
  next
    assume "str_contains cs needle"
    then have "length needle \<le> length cs" by (rule Cons.IH)
    then show ?thesis by simp
  qed
qed

text \<open>The refund the test makes, whatever the text for a decline is.\<close>

lemma declined_refund:
  "refund_late_fee_payment decline_text gateway_declining ''txn_999999_test'' 10
     = ((False, decline_text ''Transaction already refunded''), [Refund_Payment ''txn_999999_test'' 10])"
  by (simp add: refund_late_fee_payment_def gateway_declining_def)

lemma declined_test:
  "test_refund_declined_by_gateway decline_text
     = str_contains (decline_text ''Transaction already refunded'')
         ''Refund failed: Transaction already refunded''"
  by (simp add: test_refund_declined_by_gateway_def declined_refund)

text \<open>
  Claim C7, as stated, fails on a refund the gateway declines. In
  \<^verbatim>\<open>test_refund_declined_by_gateway\<close> the gateway returns normally, with
  \<^verbatim>\<open>(False, "Transaction already refunded")\<close>, and the result must contain
  \<^verbatim>\<open>Refund failed: Transaction already refunded\<close>. The message propagated verbatim
  does not pass the test, and no text for a decline that passes the test gives the
  gateway's message as the result; a text that passes exists.
\<close>

theorem refund_decline_not_verbatim_counterexample:
  "refund_payment gateway_declining ''txn_999999_test'' 10
       = Returned (False, ''Transaction already refunded'')
   \<and> snd (fst (refund_late_fee_payment (\<lambda>m. m) gateway_declining ''txn_999999_test'' 10))
       = ''Transaction already refunded''
   \<and> \<not> test_refund_declined_by_gateway (\<lambda>m. m)
   \<and> \<not> (\<exists>decline_text. test_refund_declined_by_gateway decline_text
          \<and> snd (fst (refund_late_fee_payment decline_text gateway_declining ''txn_999999_test'' 10))
              = ''Transaction already refunded'')
   \<and> test_refund_declined_by_gateway (\<lambda>m. ''Refund failed: '' @ m)"
proof (intro conjI)
  show "refund_payment gateway_declining ''txn_999999_test'' 10
       = Returned (False, ''Transaction already refunded'')"
    by (simp add: gateway_declining_def)
  show "snd (fst (refund_late_fee_payment (\<lambda>m. m) gateway_declining ''txn_999999_test'' 10))
       = ''Transaction already refunded''"
    by (simp add: declined_refund)
  have short: "\<not> str_contains ''Transaction already refunded''
                   ''Refund failed: Transaction already refunded''"
    using str_contains_length [of "''Transaction already refunded''"
        "''Refund failed: Transaction already refunded''"]
    by auto
  then show "\<not> test_refund_declined_by_gateway (\<lambda>m. m)"
    by (simp add: declined_test)
  show "\<not> (\<exists>decline_text. test_refund_declined_by_gateway decline_text
          \<and> snd (fst (refund_late_fee_payment decline_text gateway_declining ''txn_999999_test'' 10))
              = ''Transaction already refunded'')"
  proof
    assume "\<exists>decline_text. test_refund_declined_by_gateway decline_text
          \<and> snd (fst (refund_late_fee_payment decline_text gateway_declining ''txn_999999_test'' 10))
              = ''Transaction already refunded''"
    then obtain d where t: "test_refund_declined_by_gateway d"
      and v: "snd (fst (refund_late_fee_payment d gateway_declining ''txn_999999_test'' 10))
              = ''Transaction already refunded''"
      by blast
    from v have "d ''Transaction already refunded'' = ''Transaction already refunded''"
      by (simp only: declined_refund fst_conv snd_conv)
    with t have "str_contains ''Transaction already refunded''
                   ''Refund failed: Transaction already refunded''"
      by (simp only: declined_test)
    with short show False by simp
  qed
  show "test_refund_declined_by_gateway (\<lambda>m. ''Refund failed: '' @ m)"
    by (simp add: declined_test)
qed

text \<open>
  Claim C7, amended. Whenever the gateway's refund is called and returns normally,
  \<^verbatim>\<open>refund_late_fee_payment\<close> returns the gateway's success flag, having called the
  gateway once; when the gateway reports success, the result message is the gateway's
  message verbatim. (What the message is when the gateway reports a failure is left open
  here: the theorem holds for every text for a decline.)
\<close>

theorem refund_propagates_gateway_reply:
  assumes "transaction_id \<noteq> []" and "take 4 transaction_id = ''txn_''"
    and "0 < amount" and "amount \<le> 15"
    and "refund_payment gateway transaction_id amount = Returned (ok, message)"
  shows "fst (fst (refund_late_fee_payment decline_text gateway transaction_id amount)) = ok
       \<and> snd (refund_late_fee_payment decline_text gateway transaction_id amount)
           = [Refund_Payment transaction_id amount]
       \<and> (ok \<longrightarrow> snd (fst (refund_late_fee_payment decline_text gateway transaction_id amount))
                   = message)"
  using assms by (simp add: refund_late_fee_payment_def Let_def)

text \<open>A refund of 5.50 the gateway accepts, and one of 10.00 it declines, with a text for
  the decline that passes the test.\<close>

theorem refund_propagates_gateway_reply_witness:
  "take 4 ''txn_123456_test'' = ''txn_''
   \<and> refund_payment gateway_accepting ''txn_123456_test'' (11 / 2)
       = Returned (True, ''Refund processed successfully'')
   \<and> fst (refund_late_fee_payment (\<lambda>m. ''Refund failed: '' @ m) gateway_accepting ''txn_123456_test'' (11 / 2))
       = (True, ''Refund processed successfully'')
   \<and> refund_payment gateway_declining ''txn_123456_test'' 10
       = Returned (False, ''Transaction already refunded'')
   \<and> \<not> fst (fst (refund_late_fee_payment (\<lambda>m. ''Refund failed: '' @ m) gateway_declining ''txn_123456_test'' 10))
   \<and> snd (refund_late_fee_payment (\<lambda>m. ''Refund failed: '' @ m) gateway_declining ''txn_123456_test'' 10)
       = [Refund_Payment ''txn_123456_test'' 10]"
proof -
  have n: "''txn_123456_test'' \<noteq> []" by simp
  have t: "take 4 ''txn_123456_test'' = ''txn_''" by simp
  have a: "refund_payment gateway_accepting ''txn_123456_test'' (11 / 2)
       = Returned (True, ''Refund processed successfully'')"
    by (simp add: gateway_accepting_def)
  have d: "refund_payment gateway_declining ''txn_123456_test'' 10
       = Returned (False, ''Transaction already refunded'')"
    by (simp add: gateway_declining_def)
  have p1: "(0::rat) < 11 / 2" and p2: "(11 / 2 :: rat) \<le> 15" by simp_all
  have q1: "(0::rat) < 10" and q2: "(10::rat) \<le> 15" by simp_all
  from refund_propagates_gateway_reply [OF n t p1 p2 a, of "\<lambda>m. ''Refund failed: '' @ m"]
    refund_propagates_gateway_reply [OF n t q1 q2 d, of "\<lambda>m. ''Refund failed: '' @ m"] t a d
  show ?thesis by (simp add: prod_eq_iff)
qed

end
